theory Spec2Isabelle
  imports Main
begin

section \<open>Values crossing the controller boundary\<close>

text \<open>
  The controller is called across a process boundary, so an argument typed
  \<open>string\<close> in the source can be any transported value at run time; the source
  tests \<open>typeof message !== 'string'\<close> for that reason.
\<close>

datatype jsval = JUndefined | JNull | JBool bool | JNumber int | JString string

fun isString :: "jsval \<Rightarrow> bool" where
  "isString (JString s) = True"
| "isString v = False"

text \<open>
  JavaScript truthiness of an optional string: \<open>undefined\<close> and the empty string
  are falsy. It is what \<open>!x?.address\<close> and \<open>if (hash)\<close> test.
\<close>

fun truthy :: "string option \<Rightarrow> bool" where
  "truthy None = False"
| "truthy (Some s) = (s \<noteq> [])"

section \<open>Thrown values\<close>

text \<open>
  \<open>JsError m\<close> is \<open>new Error(m)\<close> (or any error object of a collaborator with that
  message); \<open>RpcInternal a\<close> and \<open>RpcInvalidParams a\<close> are
  \<open>ethErrors.rpc.internal(a)\<close> and \<open>ethErrors.rpc.invalidParams(a)\<close>, with
  \<open>a = None\<close> for a call without argument.
\<close>

datatype exn = JsError string | RpcInternal "string option" | RpcInvalidParams "string option"

definition rpcMessage :: "string \<Rightarrow> string option \<Rightarrow> string" where
  \<comment> \<open>eth-rpc-errors: \<open>message || getMessageFromCode(code)\<close>\<close>
  "rpcMessage dflt arg = (case arg of None \<Rightarrow> dflt | Some m \<Rightarrow> if m = [] then dflt else m)"

fun message :: "exn \<Rightarrow> string" where
  "message (JsError m) = m"
| "message (RpcInternal a) = rpcMessage ''Internal JSON-RPC error.'' a"
| "message (RpcInvalidParams a) = rpcMessage ''Invalid method parameter(s).'' a"

fun isInternal :: "exn \<Rightarrow> bool" where
  "isInternal (RpcInternal a) = True"
| "isInternal e = False"

text \<open>
  What a private routine of the controller rejects with: an error as above, or viem's
  \<open>IntegerOutOfRangeError\<close> for a number (its message depends on the library's version
  and is not needed: no caller awaits the routine).
\<close>

datatype rejection = Thrown exn | IntegerOutOfRangeError nat

section \<open>Hexadecimal strings\<close>

text \<open>
  \<open>hexString n\<close> is \<open>0x\<close> followed by the digits of \<open>n.toString(16)\<close>: what viem's
  \<open>toHex\<close> returns for a non-negative integer that it accepts.
\<close>

definition hexDigit :: "nat \<Rightarrow> char" where
  "hexDigit d = ''0123456789abcdef'' ! d"

fun hexDigits :: "nat \<Rightarrow> string" where
  "hexDigits n = (if n < 16 then [hexDigit n] else hexDigits (n div 16) @ [hexDigit (n mod 16)])"

declare hexDigits.simps [simp del]

definition hexString :: "nat \<Rightarrow> string" where
  "hexString n = ''0x'' @ hexDigits n"

text \<open>
  \<open>toHex\<close> of viem applied to a JavaScript \<open>number\<close>, as in \<open>toHex(chainConfig.id)\<close>: a
  number above \<open>Number.MAX_SAFE_INTEGER\<close> is refused with viem's
  \<open>IntegerOutOfRangeError\<close>. The ids of chains are non-negative integers here.
\<close>

definition MAX_SAFE_INTEGER :: nat where
  "MAX_SAFE_INTEGER = 9007199254740991"

definition toHex :: "nat \<Rightarrow> rejection + string" where
  "toHex n = (if MAX_SAFE_INTEGER < n then Inl (IntegerOutOfRangeError n) else Inr (hexString n))"




section \<open>Entities held by the collaborators\<close>

record TDAppInfo =
  origin :: "string option"

record Owner =
  ownerAddress :: "string option"

record Account =
  address :: string
  chainId :: nat
  isDeployed :: bool

record TChainItem =
  chain_id :: nat
  rpcUrl :: string
  displayName :: string

text \<open>\<open>Partial<TChainItem>\<close>: every field optional.\<close>

record PartialChainItem =
  new_id :: "nat option"
  new_rpcUrl :: "string option"
  new_displayName :: "string option"

record Approval =
  approval_id :: string
  approval_type :: string
  approval_data :: jsval
  approval_origin :: string

text \<open>The payload of a session event: a list of addresses (an absent address is \<open>undefined\<close>) or a hex string.\<close>

datatype Payload = Addresses "string option list" | HexString string

text \<open>
  The calls the controller makes on its collaborators, in the order in which they are
  made. The connection manager, the session manager, the SDK, the chain client and the
  history manager are not read back by the methods modelled here: the record of the call
  is all the controller does to them.
\<close>

datatype Call =
    Connect TDAppInfo nat
  | BroadcastMessageToDApp "string option" string Payload
  | BroadcastMessage string Payload
  | ResetSDK TChainItem
  | WalletClientInit TChainItem
  | UpdateChain nat PartialChainItem
  | SwitchChain nat
  | CreateAccountAsCurrent string nat
  | SwitchAccountByChainId nat
  | HistorySwitchAccount "Account option"
  | ResolveApproval string jsval
  | RejectApproval string
  | ActivateCurrentAccount

record World =
  owner :: "Owner option"
  currentApproval :: "Approval option"
  chains :: "TChainItem list"
  currentChainId :: "nat option"
  accounts :: "Account list"
  currentAccount :: "Account option"
  calls :: "Call list"

text \<open>
  What the controller obtains from code outside the repository's controller file and
  whose result the spec leaves open: the SDK's signature, \<open>JSON.parse\<close>, the two hashing
  strategies of \<open>@/utils/hash\<close> and the address the SDK derives for a new account.
  Each may throw. A hash may be absent.
\<close>

record ('json, 'item) Externals =
  sdk_signMessage :: "string \<Rightarrow> string \<Rightarrow> exn + string"
  JSON_parse :: "string \<Rightarrow> exn + 'json"
  hashSignTypedData :: "'json \<Rightarrow> exn + string option"
  hashEarlyTypedData :: "'item list \<Rightarrow> exn + string option"
  newAccountAddress :: "string \<Rightarrow> nat \<Rightarrow> string"
  sdk_isSmartAccountDeployed :: "string \<Rightarrow> exn + bool"
  walletClient_getBalance :: "string \<Rightarrow> exn + nat"
  formatEther :: "nat \<Rightarrow> string"

definition logCall :: "Call \<Rightarrow> World \<Rightarrow> World" where
  "logCall c w = w\<lparr>calls := calls w @ [c]\<rparr>"

section \<open>Collaborators\<close>

text \<open>
  The controller imports its collaborators from \<open>./services/*\<close>; their source files
  are missing, and section 6 of the spec gives their contracts. An operation that the
  spec gives the result \<open>void\<close> and no failure does not throw in the model.
\<close>

text \<open>
  Modelled from the spec: \<open>connectionManager.connect(dApp, chainId)->void\<close>
  (\<open>./services/connection\<close> is missing). The model records the call.
\<close>

definition connectionManager_connect :: "TDAppInfo \<Rightarrow> nat \<Rightarrow> World \<Rightarrow> World" where
  "connectionManager_connect dApp cid w = logCall (Connect dApp cid) w"

text \<open>
  Modelled from the spec: \<open>sessionManager.broadcastMessageToDApp(origin, eventName,
  payload)->void\<close> (\<open>./services/session\<close> is missing). The model records the call.
\<close>

definition sessionManager_broadcastMessageToDApp :: "string option \<Rightarrow> string \<Rightarrow> Payload \<Rightarrow> World \<Rightarrow> World" where
  "sessionManager_broadcastMessageToDApp org ev pl w = logCall (BroadcastMessageToDApp org ev pl) w"

text \<open>
  Modelled from the spec: \<open>sessionManager.broadcastMessage(eventName, payload)->void\<close>, to
  all sessions (\<open>./services/session\<close> is missing). The model records the call.
\<close>

definition sessionManager_broadcastMessage :: "string \<Rightarrow> Payload \<Rightarrow> World \<Rightarrow> World" where
  "sessionManager_broadcastMessage ev pl w = logCall (BroadcastMessage ev pl) w"

text \<open>
  Modelled from the spec: \<open>elytroSDK.resetSDK(chainConfig)\<close> (\<open>./services/sdk\<close> is
  missing). The model records the call.
\<close>

definition elytroSDK_resetSDK :: "TChainItem \<Rightarrow> World \<Rightarrow> World" where
  "elytroSDK_resetSDK c w = logCall (ResetSDK c) w"

text \<open>
  Modelled from the spec: \<open>walletClient.init(chainConfig)\<close> (\<open>./services/walletClient\<close>
  is missing). The model records the call.
\<close>

definition walletClient_init :: "TChainItem \<Rightarrow> World \<Rightarrow> World" where
  "walletClient_init c w = logCall (WalletClientInit c) w"

text \<open>
  Modelled from the spec: \<open>historyManager.switchAccount(account)->void\<close>
  (\<open>./services/history\<close> is missing). The model records the call.
\<close>

definition historyManager_switchAccount :: "Account option \<Rightarrow> World \<Rightarrow> World" where
  "historyManager_switchAccount a w = logCall (HistorySwitchAccount a) w"

text \<open>
  Modelled from the spec: the session manager's delivery (\<open>./services/session\<close> is
  missing). \<open>broadcastMessageToDApp(origin, ...)\<close> reaches the session of that origin and
  \<open>broadcastMessage\<close> reaches all sessions (section 6; section 9 names them "broadcast to
  one" and "broadcast to all"). \<open>received org cs\<close> lists, in order, the events that the
  session of origin \<open>org\<close> receives from the calls \<open>cs\<close>.
\<close>

fun received :: "string \<Rightarrow> Call list \<Rightarrow> (string \<times> Payload) list" where
  "received org [] = []"
| "received org (BroadcastMessageToDApp target ev pl # cs) =
     (if target = Some org then (ev, pl) # received org cs else received org cs)"
| "received org (BroadcastMessage ev pl # cs) = (ev, pl) # received org cs"
| "received org (c # cs) = received org cs"

text \<open>
  Modelled from the spec: \<open>chainService.currentChain: ChainConfig|null\<close>
  (\<open>./services/chain\<close> is missing). The chain service holds the list of configured chains
  and "exactly one current chain at a time, selected by id" (section 3); no current chain
  resolves when no configured chain has the selected id.
\<close>

definition chainService_currentChain :: "World \<Rightarrow> TChainItem option" where
  "chainService_currentChain w = find (\<lambda>c. Some (chain_id c) = currentChainId w) (chains w)"

text \<open>
  Modelled from the spec: the merge of a partial configuration into a chain configuration,
  by which \<open>chainService.updateChain\<close> updates a chain (\<open>./services/chain\<close> is missing): a
  field that the partial configuration has replaces the chain's.
\<close>

definition mergeChain :: "PartialChainItem \<Rightarrow> TChainItem \<Rightarrow> TChainItem" where
  "mergeChain p c =
     \<lparr>chain_id = (case new_id p of None \<Rightarrow> chain_id c | Some i \<Rightarrow> i),
      rpcUrl = (case new_rpcUrl p of None \<Rightarrow> rpcUrl c | Some u \<Rightarrow> u),
      displayName = (case new_displayName p of None \<Rightarrow> displayName c | Some n \<Rightarrow> n)\<rparr>"

text \<open>
  Modelled from the spec: \<open>chainService.updateChain(id, partialConfig)->void\<close>
  (\<open>./services/chain\<close> is missing). It updates the configured chain of that id.
\<close>

definition chainService_updateChain :: "nat \<Rightarrow> PartialChainItem \<Rightarrow> World \<Rightarrow> World" where
  "chainService_updateChain cid p w =
     logCall (UpdateChain cid p)
       (w\<lparr>chains := map (\<lambda>c. if chain_id c = cid then mergeChain p c else c) (chains w)\<rparr>)"

text \<open>
  Modelled from the spec: \<open>chainService.switchChain(id)->ChainConfig|null\<close>, "null if
  unchanged/no-op" (\<open>./services/chain\<close> is missing). It makes the configured chain of
  that id current and returns its configuration; when the id is already selected or is not
  the id of a configured chain, nothing changes and the result is \<open>null\<close>.
\<close>

definition chainService_switchChain :: "nat \<Rightarrow> World \<Rightarrow> TChainItem option \<times> World" where
  "chainService_switchChain cid w =
     (let w1 = logCall (SwitchChain cid) w
      in if currentChainId w = Some cid then (None, w1)
         else (case find (\<lambda>c. chain_id c = cid) (chains w) of
                 None \<Rightarrow> (None, w1)
               | Some c \<Rightarrow> (Some c, w1\<lparr>currentChainId := Some cid\<rparr>)))"

text \<open>
  Modelled from the spec: \<open>accountManager.createAccountAsCurrent(ownerAddress,
  chainId)->void\<close> (\<open>./services/account\<close> is missing). It "creates and activates a new
  account for that chain under the owner's address" (section 4.1); the new account is not
  deployed, and its address is the one the SDK derives.
\<close>

definition accountManager_createAccountAsCurrent ::
  "('json, 'item) Externals \<Rightarrow> string \<Rightarrow> nat \<Rightarrow> World \<Rightarrow> World" where
  "accountManager_createAccountAsCurrent ext ownerAddr cid w =
     (let a = \<lparr>address = newAccountAddress ext ownerAddr cid, chainId = cid, isDeployed = False\<rparr>
      in logCall (CreateAccountAsCurrent ownerAddr cid)
           (w\<lparr>accounts := accounts w @ [a], currentAccount := Some a\<rparr>))"

text \<open>
  Modelled from the spec: \<open>accountManager.switchAccountByChainId(chainId)->void\<close>
  (\<open>./services/account\<close> is missing). The account of that chain becomes the current
  account; there is no current account when the chain has none.
\<close>

definition accountManager_switchAccountByChainId :: "nat \<Rightarrow> World \<Rightarrow> World" where
  "accountManager_switchAccountByChainId cid w =
     logCall (SwitchAccountByChainId cid)
       (w\<lparr>currentAccount := find (\<lambda>a. chainId a = cid) (accounts w)\<rparr>)"

text \<open>
  Modelled from the spec: \<open>accountManager.activateCurrentAccount()->void\<close>
  (\<open>./services/account\<close> is missing). The current account is "cached as activated once
  deployment is observed" (section 3).
\<close>

definition accountManager_activateCurrentAccount :: "World \<Rightarrow> World" where
  "accountManager_activateCurrentAccount w =
     logCall ActivateCurrentAccount
       (w\<lparr>currentAccount := map_option (\<lambda>a. a\<lparr>isDeployed := True\<rparr>) (currentAccount w)\<rparr>)"

text \<open>
  Modelled from the spec: whether an id is the id of the live approval
  (\<open>./services/approval\<close> is missing). The approval service "holds at most one pending
  approval request at a time" (section 2).
\<close>

definition isLive :: "string \<Rightarrow> World \<Rightarrow> bool" where
  "isLive i w = (case currentApproval w of None \<Rightarrow> False | Some a \<Rightarrow> approval_id a = i)"

text \<open>
  Modelled from the spec: \<open>approvalService.resolveApproval(id, data)->void\<close>
  (\<open>./services/approval\<close> is missing). Resolving the live approval ends it
  (\<open>PENDING \<rightarrow> NONE\<close>, section 4); resolving any other id is a silent no-op (sections 5
  and 7).
\<close>

definition approvalService_resolveApproval :: "string \<Rightarrow> jsval \<Rightarrow> World \<Rightarrow> World" where
  "approvalService_resolveApproval i d w =
     logCall (ResolveApproval i d) (if isLive i w then w\<lparr>currentApproval := None\<rparr> else w)"

text \<open>
  Modelled from the spec: \<open>approvalService.rejectApproval(id)->void\<close>
  (\<open>./services/approval\<close> is missing). Rejecting the live approval ends it; rejecting any
  other id is a silent no-op (sections 5 and 7).
\<close>

definition approvalService_rejectApproval :: "string \<Rightarrow> World \<Rightarrow> World" where
  "approvalService_rejectApproval i w =
     logCall (RejectApproval i) (if isLive i w then w\<lparr>currentApproval := None\<rparr> else w)"

section \<open>The wallet controller\<close>

text \<open>
  Every method below is an \<open>async\<close> method of the source: what it throws is the rejection
  of its promise, the \<open>Inl\<close> of the result. The body of an \<open>async\<close> function runs at the
  call up to its first \<open>await\<close>, and none of the private routines contains one, so a call
  that is not awaited (\<open>this._switchChain(chainId)\<close>, \<open>this._onChainConfigChanged()\<close>)
  has had all its effects when it returns; only its rejection is dropped, which the model
  writes as \<open>snd\<close>.
\<close>

text \<open>Lines 47 to 57.\<close>

definition getCurrentApproval :: "World \<Rightarrow> (exn + Approval option) \<times> World" where
  "getCurrentApproval w = (Inr (currentApproval w), w)"

definition resolveApproval :: "string \<Rightarrow> jsval \<Rightarrow> World \<Rightarrow> (exn + unit) \<times> World" where
  "resolveApproval i d w = (Inr (), approvalService_resolveApproval i d w)"

definition rejectApproval :: "string \<Rightarrow> World \<Rightarrow> (exn + unit) \<times> World" where
  "rejectApproval i w = (Inr (), approvalService_rejectApproval i w)"

text \<open>Lines 59 to 64. \<open>currentAccount?.address\<close> is \<open>undefined\<close> without a current account.\<close>

definition connectWallet :: "TDAppInfo \<Rightarrow> nat \<Rightarrow> World \<Rightarrow> (exn + unit) \<times> World" where
  "connectWallet dApp cid w =
     (let w1 = connectionManager_connect dApp cid w;
          w2 = sessionManager_broadcastMessageToDApp (origin dApp) ''accountsChanged''
                 (Addresses [map_option address (currentAccount w1)]) w1
      in (Inr (), w2))"

text \<open>
  Lines 126 to 137. The argument \<open>toHex(chainConfig.id)\<close> is evaluated after the SDK reset
  and the chain client's reinitialization and before the broadcast; when it throws, no
  broadcast is sent.
\<close>

definition priv_onChainConfigChanged :: "World \<Rightarrow> (rejection + unit) \<times> World" where
  "priv_onChainConfigChanged w =
     (case chainService_currentChain w of
        None \<Rightarrow> (Inl (Thrown (JsError ''Elytro: No current chain config'')), w)
      | Some chainConfig \<Rightarrow>
          (let w1 = elytroSDK_resetSDK chainConfig w;
               w2 = walletClient_init chainConfig w1
           in (case toHex (chain_id chainConfig) of
                 Inl e \<Rightarrow> (Inl e, w2)
               | Inr hex \<Rightarrow>
                   (Inr (), sessionManager_broadcastMessage ''chainChanged'' (HexString hex) w2))))"

text \<open>Lines 147 to 153.\<close>

definition updateChainConfig :: "nat \<Rightarrow> PartialChainItem \<Rightarrow> World \<Rightarrow> (exn + unit) \<times> World" where
  "updateChainConfig cid config w =
     (let w1 = chainService_updateChain cid config w
      in if Some cid = map_option chain_id (chainService_currentChain w1)
         then (Inr (), snd (priv_onChainConfigChanged w1))
         else (Inr (), w1))"

text \<open>
  Lines 167 to 186. The result is \<open>{...basicInfo, balance}\<close>: the account read at the
  start, with the formatted balance.
\<close>

definition getCurrentAccount ::
  "('json, 'item) Externals \<Rightarrow> World \<Rightarrow> (exn + Account \<times> string) \<times> World" where
  "getCurrentAccount ext w =
     (case currentAccount w of
        None \<Rightarrow> (Inl (JsError ''Elytro: No current account''), w)
      | Some basicInfo \<Rightarrow>
          (case (if isDeployed basicInfo then Inr w
                 else (case sdk_isSmartAccountDeployed ext (address basicInfo) of
                         Inl e \<Rightarrow> Inl e
                       | Inr deployed \<Rightarrow>
                           Inr (if deployed then accountManager_activateCurrentAccount w else w))) of
             Inl e \<Rightarrow> (Inl e, w)
           | Inr w1 \<Rightarrow>
               (case walletClient_getBalance ext (address basicInfo) of
                  Inl e \<Rightarrow> (Inl e, w1)
                | Inr balanceBn \<Rightarrow> (Inr (basicInfo, formatEther ext balanceBn), w1))))"

text \<open>Lines 197 to 207.\<close>

definition priv_switchChain :: "nat \<Rightarrow> World \<Rightarrow> (exn + unit) \<times> World" where
  "priv_switchChain cid w =
     (if Some cid = map_option chain_id (chainService_currentChain w) then (Inr (), w)
      else (case chainService_switchChain cid w of
              (None, w1) \<Rightarrow> (Inr (), w1)
            | (Some newChainConfig, w1) \<Rightarrow> (Inr (), snd (priv_onChainConfigChanged w1))))"




text \<open>Lines 209 to 218.\<close>

definition switchAccountByChain :: "nat \<Rightarrow> World \<Rightarrow> (exn + unit) \<times> World" where
  "switchAccountByChain cid w =
     (let w1 = snd (priv_switchChain cid w);
          w2 = accountManager_switchAccountByChainId cid w1;
          w3 = historyManager_switchAccount (currentAccount w2) w2;
          w4 = sessionManager_broadcastMessage ''accountsChanged''
                 (Addresses [map_option address (currentAccount w3)]) w3
      in (Inr (), w4))"

section \<open>Signing\<close>

text \<open>\<open>WalletController.signMessage\<close> (lines 76 to 90).\<close>

definition signMessage :: "('json, 'item) Externals \<Rightarrow> World \<Rightarrow> jsval \<Rightarrow> exn + string" where
  "signMessage ext w msg =
     (case currentAccount w of
        None \<Rightarrow> Inl (RpcInternal None)
      | Some acc \<Rightarrow>
          if address acc = [] then Inl (RpcInternal None)
          else (case msg of
                  JString m \<Rightarrow> sdk_signMessage ext m (address acc)
                | _ \<Rightarrow> Inl (RpcInvalidParams None)))"

text \<open>
  \<open>WalletController.signTypedData\<close> (lines 92 to 109). The argument is a string or a list
  of typed-data items; \<open>hashed\<close> is the \<open>try\<close> block up to \<open>if (hash)\<close>, and the
  \<open>catch\<close> turns whatever was thrown into \<open>ethErrors.rpc.internal(error.message)\<close>.
\<close>

datatype 'item TypedData = TypedString string | TypedList "'item list"

definition noHashError :: exn where
  "noHashError = JsError ''Elytro: Cannot generate hash for typed data''"

definition hashed :: "('json, 'item) Externals \<Rightarrow> 'item TypedData \<Rightarrow> exn + string option" where
  "hashed ext typedData =
     (case typedData of
        TypedString s \<Rightarrow> (case JSON_parse ext s of Inl e \<Rightarrow> Inl e | Inr j \<Rightarrow> hashSignTypedData ext j)
      | TypedList items \<Rightarrow> hashEarlyTypedData ext items)"

definition signTypedData :: "('json, 'item) Externals \<Rightarrow> World \<Rightarrow> 'item TypedData \<Rightarrow> exn + string" where
  "signTypedData ext w typedData =
     (let attempt =
        (case hashed ext typedData of
           Inl e \<Rightarrow> Inl e
         | Inr None \<Rightarrow> Inl noHashError
         | Inr (Some h) \<Rightarrow> if h = [] then Inl noHashError else signMessage ext w (JString h))
      in case attempt of
           Inl error \<Rightarrow> Inl (RpcInternal (Some (message error)))
         | Inr signature \<Rightarrow> Inr signature)"

section \<open>The BigInt-safe formatting boundary\<close>

text \<open>
  The helpers \<open>formatObjectWithBigInt\<close> and \<open>deformatObjectWithBigInt\<close> are imported from
  \<open>@/utils/format\<close>, whose source is missing. The spec describes a user operation as a
  structure with numeric fields, "serialized as hexadecimal strings at the process
  boundary and converted to/from big-integer numeric type internally" (section 3).
\<close>















section \<open>The declarations of the controller's methods\<close>

text \<open>
  The methods of \<open>class WalletController\<close> in the order of the source, each with its
  visibility and whether it is declared \<open>async\<close>.
\<close>

datatype Visibility = Public | Private

record MethodDecl =
  methodName :: string
  visibility :: Visibility
  declaredAsync :: bool

definition declared :: "string \<Rightarrow> Visibility \<Rightarrow> bool \<Rightarrow> MethodDecl" where
  "declared n v a = \<lparr>methodName = n, visibility = v, declaredAsync = a\<rparr>"

definition WalletController_methods :: "MethodDecl list" where
  "WalletController_methods =
    [declared ''createNewOwner'' Public True,
     declared ''getLockStatus'' Public True,
     declared ''lock'' Public True,
     declared ''unlock'' Public True,
     declared ''getCurrentApproval'' Public True,
     declared ''resolveApproval'' Public True,
     declared ''rejectApproval'' Public True,
     declared ''connectWallet'' Public True,
     declared ''signUserOperation'' Public True,
     declared ''sendUserOperation'' Public True,
     declared ''signMessage'' Public True,
     declared ''signTypedData'' Public True,
     declared ''addNewHistory'' Public True,
     declared ''getLatestHistories'' Public False,
     declared ''_onChainConfigChanged'' Private True,
     declared ''getCurrentChain'' Public True,
     declared ''getChains'' Public True,
     declared ''updateChainConfig'' Public True,
     declared ''addChain'' Public True,
     declared ''deleteChain'' Public True,
     declared ''getAccounts'' Public True,
     declared ''getCurrentAccount'' Public True,
     declared ''createAccount'' Public True,
     declared ''_switchChain'' Private True,
     declared ''switchAccountByChain'' Public True,
     declared ''createDeployUserOp'' Public True,
     declared ''createTxUserOp'' Public True,
     declared ''decodeUserOp'' Public True,
     declared ''estimateGas'' Public True,
     declared ''packUserOp'' Public True,
     declared ''getENSInfoByName'' Public True,
     declared ''removeAccount'' Public True]"

definition synchronousPublicMethods :: "MethodDecl list \<Rightarrow> string list" where
  "synchronousPublicMethods ms =
     map methodName (filter (\<lambda>m. visibility m = Public \<and> \<not> declaredAsync m) ms)"

section \<open>Concrete collaborators and states\<close>

definition demoExternals :: "(string, string) Externals" where
  "demoExternals =
     \<lparr>sdk_signMessage = (\<lambda>m a. Inr (''sig:'' @ m @ '':'' @ a)),
      JSON_parse = (\<lambda>s. if s = [] then Inl (JsError ''Unexpected end of JSON input'') else Inr s),
      hashSignTypedData = (\<lambda>j. if j = ''{}'' then Inl (JsError ''Invalid typed data'') else Inr (Some (''0x1'' @ j))),
      hashEarlyTypedData = (\<lambda>l. if l = [] then Inr None else Inr (Some (''0x2'' @ concat l))),
      newAccountAddress = (\<lambda>a n. ''0xacc'' @ a),
      sdk_isSmartAccountDeployed = (\<lambda>a. Inr True),
      walletClient_getBalance = (\<lambda>a. Inr 0),
      formatEther = (\<lambda>n. ''0'')\<rparr>"

definition mainnet :: TChainItem where
  "mainnet = \<lparr>chain_id = 1, rpcUrl = ''https://rpc.one'', displayName = ''Mainnet''\<rparr>"

definition optimism :: TChainItem where
  "optimism = \<lparr>chain_id = 10, rpcUrl = ''https://rpc.ten'', displayName = ''Optimism''\<rparr>"

definition accountOne :: Account where
  "accountOne = \<lparr>address = ''0xa1'', chainId = 1, isDeployed = True\<rparr>"

definition accountTen :: Account where
  "accountTen = \<lparr>address = ''0xa10'', chainId = 10, isDeployed = False\<rparr>"

definition pendingApproval :: Approval where
  "pendingApproval = \<lparr>approval_id = ''a1'', approval_type = ''connect'',
                       approval_data = JNull, approval_origin = ''https://dapp.one''\<rparr>"

definition demoWorld :: World where
  "demoWorld =
     \<lparr>owner = Some \<lparr>ownerAddress = Some ''0xowner''\<rparr>,
      currentApproval = Some pendingApproval,
      chains = [mainnet, optimism],
      currentChainId = Some 1,
      accounts = [accountOne, accountTen],
      currentAccount = Some accountOne,
      calls = []\<rparr>"

definition freshWorld :: World where
  "freshWorld =
     \<lparr>owner = None, currentApproval = None, chains = [mainnet, optimism],
      currentChainId = Some 1, accounts = [], currentAccount = None, calls = []\<rparr>"

definition dAppOne :: TDAppInfo where
  "dAppOne = \<lparr>origin = Some ''https://dapp.one''\<rparr>"

definition rpcPatch :: PartialChainItem where
  "rpcPatch = \<lparr>new_id = None, new_rpcUrl = Some ''https://rpc.new'', new_displayName = None\<rparr>"

definition newMainnet :: TChainItem where
  "newMainnet = \<lparr>chain_id = 1, rpcUrl = ''https://rpc.new'', displayName = ''Mainnet''\<rparr>"

definition noChainWorld :: World where
  "noChainWorld =
     \<lparr>owner = None, currentApproval = None, chains = [], currentChainId = None,
      accounts = [], currentAccount = None, calls = []\<rparr>"

definition farChain :: TChainItem where
  "farChain = \<lparr>chain_id = 9007199254740992, rpcUrl = ''https://rpc.far'', displayName = ''Far''\<rparr>"

definition newFarChain :: TChainItem where
  "newFarChain = \<lparr>chain_id = 9007199254740992, rpcUrl = ''https://rpc.new'', displayName = ''Far''\<rparr>"

definition farWorld :: World where
  "farWorld =
     \<lparr>owner = Some \<lparr>ownerAddress = Some ''0xowner''\<rparr>, currentApproval = None,
      chains = [mainnet, farChain], currentChainId = Some 9007199254740992,
      accounts = [accountOne], currentAccount = None, calls = []\<rparr>"

definition demoWorldFar :: World where
  "demoWorldFar =
     \<lparr>owner = Some \<lparr>ownerAddress = Some ''0xowner''\<rparr>, currentApproval = None,
      chains = [mainnet, farChain], currentChainId = Some 1,
      accounts = [accountOne], currentAccount = Some accountOne, calls = []\<rparr>"

section \<open>Basic facts\<close>

lemma calls_logCall [simp]: "calls (logCall c w) = calls w @ [c]"
  by (simp add: logCall_def)

lemma received_append: "received org (xs @ ys) = received org xs @ received org ys"
  by (induction org xs rule: received.induct) simp_all

lemma connectWallet_world:
  "snd (connectWallet dApp cid w) =
     w\<lparr>calls := calls w @
          [Connect dApp cid,
           BroadcastMessageToDApp (origin dApp) ''accountsChanged''
             (Addresses [map_option address (currentAccount w)])]\<rparr>"
  by (simp add: connectWallet_def connectionManager_connect_def
      sessionManager_broadcastMessageToDApp_def logCall_def)

lemma connectWallet_result: "fst (connectWallet dApp cid w) = Inr ()"
  by (simp add: connectWallet_def Let_def)

lemma currentChain_calls [simp]:
  "chainService_currentChain (w\<lparr>calls := cs\<rparr>) = chainService_currentChain w"
  by (simp add: chainService_currentChain_def)

lemma currentChain_currentAccount [simp]:
  "chainService_currentChain (w\<lparr>currentAccount := a\<rparr>) = chainService_currentChain w"
  by (simp add: chainService_currentChain_def)

lemma currentChain_logCall [simp]:
  "chainService_currentChain (logCall c w) = chainService_currentChain w"
  by (simp add: logCall_def)

lemma currentChain_createAccount [simp]:
  "chainService_currentChain (accountManager_createAccountAsCurrent ext a cid w) =
   chainService_currentChain w"
  by (simp add: accountManager_createAccountAsCurrent_def Let_def chainService_currentChain_def
      logCall_def)

lemma onChainConfigChanged_Some:
  "chainService_currentChain w = Some c \<Longrightarrow>
   priv_onChainConfigChanged w =
     (if chain_id c \<le> MAX_SAFE_INTEGER then Inr () else Inl (IntegerOutOfRangeError (chain_id c)),
      w\<lparr>calls := calls w @ [ResetSDK c, WalletClientInit c] @
            (if chain_id c \<le> MAX_SAFE_INTEGER
             then [BroadcastMessage ''chainChanged'' (HexString (hexString (chain_id c)))]
             else [])\<rparr>)"
  by (simp add: priv_onChainConfigChanged_def elytroSDK_resetSDK_def walletClient_init_def
      sessionManager_broadcastMessage_def logCall_def toHex_def)

lemma onChainConfigChanged_None:
  "chainService_currentChain w = None \<Longrightarrow>
   priv_onChainConfigChanged w = (Inl (Thrown (JsError ''Elytro: No current chain config'')), w)"
  by (simp add: priv_onChainConfigChanged_def)

lemma find_map_same_key:
  assumes "\<And>x. P (f x) = P x"
  shows "find P (map f xs) = map_option f (find P xs)"
  using assms by (induction xs) simp_all

lemma mergeChain_keeps_id: "new_id p = None \<Longrightarrow> chain_id (mergeChain p c) = chain_id c"
  by (simp add: mergeChain_def)

lemma updateChain_keeps_current_id:
  assumes "new_id config = None"
  shows "map_option chain_id (chainService_currentChain (chainService_updateChain cid config w)) =
         map_option chain_id (chainService_currentChain w)"
proof -
  let ?f = "\<lambda>c. if chain_id c = cid then mergeChain config c else c"
  let ?P = "\<lambda>c. Some (chain_id c) = currentChainId w"
  have key: "\<And>x. ?P (?f x) = ?P x"
    using assms by (simp add: mergeChain_keeps_id)
  have "find ?P (map ?f (chains w)) = map_option ?f (find ?P (chains w))"
    using key by (rule find_map_same_key)
  moreover have "\<And>x. chain_id (?f x) = chain_id x"
    using assms by (simp add: mergeChain_keeps_id)
  ultimately show ?thesis
    by (simp add: chainService_updateChain_def chainService_currentChain_def logCall_def
        option.map_comp comp_def)
qed

lemma switchChain_same:
  "map_option chain_id (chainService_currentChain w) = Some cid \<Longrightarrow>
   priv_switchChain cid w = (Inr (), w)"
  unfolding priv_switchChain_def by (simp add: eq_commute [of "Some cid"])

lemma switchChain_configured:
  assumes differs: "map_option chain_id (chainService_currentChain w) \<noteq> Some cid"
    and found: "find (\<lambda>c. chain_id c = cid) (chains w) = Some c"
  shows "priv_switchChain cid w =
     (Inr (), w\<lparr>currentChainId := Some cid,
                calls := calls w @ [SwitchChain cid, ResetSDK c, WalletClientInit c] @
                  (if cid \<le> MAX_SAFE_INTEGER
                   then [BroadcastMessage ''chainChanged'' (HexString (hexString cid))]
                   else [])\<rparr>)"
proof -
  have cidc: "chain_id c = cid"
    using found by (auto simp: find_Some_iff)
  have notcur: "currentChainId w \<noteq> Some cid"
  proof
    assume "currentChainId w = Some cid"
    then have "chainService_currentChain w = Some c"
      using found by (simp add: chainService_currentChain_def)
    with differs cidc show False by simp
  qed
  let ?w1 = "w\<lparr>calls := calls w @ [SwitchChain cid], currentChainId := Some cid\<rparr>"
  have sw: "chainService_switchChain cid w = (Some c, ?w1)"
    using notcur found by (simp add: chainService_switchChain_def Let_def logCall_def)
  have cur: "chainService_currentChain ?w1 = Some c"
    using found by (simp add: chainService_currentChain_def)
  have "priv_switchChain cid w = (Inr (), snd (priv_onChainConfigChanged ?w1))"
    using differs sw unfolding priv_switchChain_def by (auto simp: eq_commute [of "Some cid"])
  then show ?thesis
    by (simp add: onChainConfigChanged_Some [OF cur] cidc)
qed

lemma switchChain_unconfigured:
  assumes differs: "map_option chain_id (chainService_currentChain w) \<noteq> Some cid"
    and missing: "find (\<lambda>c. chain_id c = cid) (chains w) = None"
  shows "priv_switchChain cid w = (Inr (), logCall (SwitchChain cid) w)"
proof -
  have "chainService_switchChain cid w = (None, logCall (SwitchChain cid) w)"
    using missing by (simp add: chainService_switchChain_def Let_def)
  then show ?thesis
    using differs unfolding priv_switchChain_def by (auto simp: eq_commute [of "Some cid"])
qed

lemma switchChain_frame:
  "accounts (snd (priv_switchChain cid w)) = accounts w \<and>
   currentAccount (snd (priv_switchChain cid w)) = currentAccount w \<and>
   owner (snd (priv_switchChain cid w)) = owner w \<and>
   chains (snd (priv_switchChain cid w)) = chains w"
proof (cases "map_option chain_id (chainService_currentChain w) = Some cid")
  case True
  then show ?thesis by (simp add: switchChain_same)
next
  case False
  show ?thesis
  proof (cases "find (\<lambda>c. chain_id c = cid) (chains w)")
    case None
    show ?thesis
      by (simp add: switchChain_unconfigured [OF False None] logCall_def)
  next
    case (Some c)
    show ?thesis
      by (simp add: switchChain_configured [OF False Some])
  qed
qed

lemma switchAccountByChain_world:
  "switchAccountByChain cid w =
     (Inr (),
      (snd (priv_switchChain cid w))
        \<lparr>currentAccount := find (\<lambda>a. chainId a = cid) (accounts w),
         calls := calls (snd (priv_switchChain cid w)) @
           [SwitchAccountByChainId cid,
            HistorySwitchAccount (find (\<lambda>a. chainId a = cid) (accounts w)),
            BroadcastMessage ''accountsChanged''
              (Addresses [map_option address (find (\<lambda>a. chainId a = cid) (accounts w))])]\<rparr>)"
  by (simp add: switchAccountByChain_def Let_def accountManager_switchAccountByChainId_def
      historyManager_switchAccount_def sessionManager_broadcastMessage_def logCall_def
      switchChain_frame)

section \<open>Connecting a dApp\<close>

text \<open>
  C1. \<open>connectWallet(dApp, chainId)\<close> first registers the connection with the connection
  manager and then sends \<open>accountsChanged\<close>, carrying the current account's address, with
  \<open>broadcastMessageToDApp\<close> to \<open>dApp.origin\<close>: these two calls are all it does. The
  session of \<open>dApp.origin\<close> receives that one event; what the session of any other origin
  has received is unchanged.
\<close>

theorem connectWallet_only_own_origin:
  "fst (connectWallet dApp cid w) = Inr () \<and>
   calls (snd (connectWallet dApp cid w)) =
     calls w @ [Connect dApp cid,
                BroadcastMessageToDApp (origin dApp) ''accountsChanged''
                  (Addresses [map_option address (currentAccount w)])] \<and>
   (origin dApp = Some org \<longrightarrow>
      received org (calls (snd (connectWallet dApp cid w))) =
        received org (calls w) @
          [(''accountsChanged'', Addresses [map_option address (currentAccount w)])]) \<and>
   (origin dApp \<noteq> Some org \<longrightarrow>
      received org (calls (snd (connectWallet dApp cid w))) = received org (calls w))"
  by (simp add: connectWallet_result connectWallet_world received_append)

theorem connectWallet_only_own_origin_witness:
  "origin dAppOne = Some ''https://dapp.one'' \<and> origin dAppOne \<noteq> Some ''https://dapp.two'' \<and>
   received ''https://dapp.one'' (calls (snd (connectWallet dAppOne 1 demoWorld))) =
     [(''accountsChanged'', Addresses [Some ''0xa1''])] \<and>
   received ''https://dapp.two'' (calls (snd (connectWallet dAppOne 1 demoWorld))) = []"
  using connectWallet_only_own_origin [of dAppOne 1 demoWorld "''https://dapp.one''"]
    connectWallet_only_own_origin [of dAppOne 1 demoWorld "''https://dapp.two''"]
  by (simp add: dAppOne_def demoWorld_def accountOne_def)

text \<open>
  C10. \<open>connectWallet\<close> never rejects, whatever the account manager holds. Without a
  current account it still registers the connection and still sends \<open>accountsChanged\<close>
  to \<open>dApp.origin\<close>, with the one-element payload \<open>[undefined]\<close>, where \<open>signMessage\<close>
  rejects with the internal RPC error and \<open>getCurrentAccount\<close> with
  "Elytro: No current account".
\<close>

theorem connectWallet_without_account:
  "fst (connectWallet dApp cid w) = Inr () \<and>
   (currentAccount w = None \<longrightarrow>
      calls (snd (connectWallet dApp cid w)) =
        calls w @ [Connect dApp cid,
                   BroadcastMessageToDApp (origin dApp) ''accountsChanged'' (Addresses [None])] \<and>
      signMessage ext w msg = Inl (RpcInternal None) \<and>
      fst (getCurrentAccount ext w) = Inl (JsError ''Elytro: No current account''))"
  by (simp add: connectWallet_result connectWallet_world signMessage_def getCurrentAccount_def)

theorem connectWallet_without_account_witness:
  "currentAccount freshWorld = None \<and>
   connectWallet dAppOne 10 freshWorld =
     (Inr (),
      freshWorld\<lparr>calls := [Connect dAppOne 10,
                            BroadcastMessageToDApp (Some ''https://dapp.one'') ''accountsChanged''
                              (Addresses [None])]\<rparr>) \<and>
   signMessage demoExternals freshWorld (JString ''hello'') = Inl (RpcInternal None)"
proof -
  have none: "currentAccount freshWorld = None"
    by (simp add: freshWorld_def)
  have same: "snd (connectWallet dAppOne 10 freshWorld) =
      freshWorld\<lparr>calls := calls freshWorld @
        [Connect dAppOne 10,
         BroadcastMessageToDApp (origin dAppOne) ''accountsChanged''
           (Addresses [map_option address (currentAccount freshWorld)])]\<rparr>"
    by (rule connectWallet_world)
  from connectWallet_without_account [of dAppOne 10 freshWorld demoExternals "JString ''hello''"] none same
  show ?thesis
    by (simp add: prod_eq_iff dAppOne_def freshWorld_def)
qed

section \<open>Signing a message\<close>

text \<open>
  C5. \<open>signMessage(message)\<close> rejects with \<open>ethErrors.rpc.internal()\<close> when the account
  manager has no current account with an address (no current account, or an empty
  address); with such an account it rejects with \<open>ethErrors.rpc.invalidParams()\<close> when
  the message is not a string, and otherwise it returns what the SDK's \<open>signMessage\<close>
  returns for the message and the current account's address. The account is checked
  first, as in the source, so a message that is not a string is rejected with one of the
  two errors in every state.
\<close>

theorem signMessage_outcomes:
  "(currentAccount w = None \<longrightarrow> signMessage ext w msg = Inl (RpcInternal None)) \<and>
   (currentAccount w = Some acc \<and> address acc = [] \<longrightarrow>
      signMessage ext w msg = Inl (RpcInternal None)) \<and>
   (currentAccount w = Some acc \<and> address acc \<noteq> [] \<and> \<not> isString msg \<longrightarrow>
      signMessage ext w msg = Inl (RpcInvalidParams None)) \<and>
   (currentAccount w = Some acc \<and> address acc \<noteq> [] \<longrightarrow>
      signMessage ext w (JString m) = sdk_signMessage ext m (address acc)) \<and>
   (\<not> isString msg \<longrightarrow>
      signMessage ext w msg = Inl (RpcInternal None) \<or>
      signMessage ext w msg = Inl (RpcInvalidParams None))"
  by (cases msg; cases "currentAccount w") (simp_all add: signMessage_def)

theorem signMessage_outcomes_witness:
  "currentAccount freshWorld = None \<and>
   signMessage demoExternals freshWorld (JString ''hello'') = Inl (RpcInternal None) \<and>
   currentAccount demoWorld = Some accountOne \<and> address accountOne \<noteq> [] \<and>
   \<not> isString (JNumber 7) \<and>
   signMessage demoExternals demoWorld (JNumber 7) = Inl (RpcInvalidParams None) \<and>
   signMessage demoExternals demoWorld (JString ''hello'') = Inr ''sig:hello:0xa1''"
  using signMessage_outcomes [of freshWorld demoExternals "JString ''hello''" accountOne "''hello''"]
    signMessage_outcomes [of demoWorld demoExternals "JNumber 7" accountOne "''hello''"]
  by (simp add: freshWorld_def demoWorld_def accountOne_def demoExternals_def)

section \<open>Approvals\<close>

text \<open>
  C8. For an id that is not the id of the pending approval, and also when no approval is
  pending, \<open>resolveApproval(id, data)\<close> and \<open>rejectApproval(id)\<close> resolve without an
  error and leave the pending approval as it is: nothing of the state changes but the
  record that the approval service was called.
\<close>

theorem stale_approval_is_noop:
  "map_option approval_id (currentApproval w) \<noteq> Some i \<Longrightarrow>
   resolveApproval i d w = (Inr (), logCall (ResolveApproval i d) w) \<and>
   rejectApproval i w = (Inr (), logCall (RejectApproval i) w) \<and>
   fst (getCurrentApproval (snd (resolveApproval i d w))) = Inr (currentApproval w) \<and>
   fst (getCurrentApproval (snd (rejectApproval i w))) = Inr (currentApproval w)"
  by (auto simp: resolveApproval_def rejectApproval_def approvalService_resolveApproval_def
      approvalService_rejectApproval_def isLive_def getCurrentApproval_def logCall_def
      split: option.splits)

theorem stale_approval_is_noop_witness:
  "map_option approval_id (currentApproval demoWorld) \<noteq> Some ''a0'' \<and>
   fst (getCurrentApproval (snd (resolveApproval ''a0'' JNull demoWorld))) = Inr (Some pendingApproval) \<and>
   fst (getCurrentApproval (snd (rejectApproval ''a0'' demoWorld))) = Inr (Some pendingApproval) \<and>
   map_option approval_id (currentApproval freshWorld) \<noteq> Some ''a1'' \<and>
   fst (getCurrentApproval (snd (rejectApproval ''a1'' freshWorld))) = Inr None"
proof -
  have cur: "currentApproval demoWorld = Some pendingApproval" "currentApproval freshWorld = None"
    by (simp_all add: demoWorld_def freshWorld_def)
  have stale: "map_option approval_id (currentApproval demoWorld) \<noteq> Some ''a0''"
    by (simp add: cur pendingApproval_def)
  have none: "map_option approval_id (currentApproval freshWorld) \<noteq> Some ''a1''"
    by (simp add: cur)
  note demo = stale_approval_is_noop [OF stale, of JNull, unfolded cur]
  note fresh = stale_approval_is_noop [OF none, of JNull, unfolded cur]
  from demo fresh stale none show ?thesis
    by blast
qed

section \<open>Chain configuration\<close>

text \<open>
  C3, on a chain id above the safe integers. Chain \<open>2^53\<close> is configured and current:
  \<open>updateChainConfig(2^53, config)\<close> resolves after the chain service's update, the SDK
  reset and the chain client's reinitialization, and no \<open>chainChanged\<close> event is sent,
  because \<open>toHex\<close> throws.
\<close>

theorem updateChainConfig_unsafe_id_counterexample:
  "map_option chain_id
     (chainService_currentChain (chainService_updateChain 9007199254740992 rpcPatch farWorld)) =
     Some 9007199254740992 \<and>
   fst (updateChainConfig 9007199254740992 rpcPatch farWorld) = Inr () \<and>
   calls (snd (updateChainConfig 9007199254740992 rpcPatch farWorld)) =
     [UpdateChain 9007199254740992 rpcPatch, ResetSDK newFarChain, WalletClientInit newFarChain] \<and>
   received ''https://dapp.one'' (calls (snd (updateChainConfig 9007199254740992 rpcPatch farWorld))) = []"
proof -
  let ?w1 = "chainService_updateChain 9007199254740992 rpcPatch farWorld"
  have cur: "chainService_currentChain ?w1 = Some newFarChain"
    by (simp add: chainService_currentChain_def chainService_updateChain_def logCall_def
        farWorld_def mainnet_def farChain_def rpcPatch_def mergeChain_def newFarChain_def)
  have far: "chain_id newFarChain = 9007199254740992"
    by (simp add: newFarChain_def)
  have log: "calls ?w1 = [UpdateChain 9007199254740992 rpcPatch]"
    by (simp add: chainService_updateChain_def farWorld_def)
  have run: "updateChainConfig 9007199254740992 rpcPatch farWorld =
      (Inr (), snd (priv_onChainConfigChanged ?w1))"
    by (simp add: updateChainConfig_def Let_def cur far)
  have unsafe: "\<not> chain_id newFarChain \<le> MAX_SAFE_INTEGER"
    by (simp add: far MAX_SAFE_INTEGER_def)
  have after: "calls (snd (updateChainConfig 9007199254740992 rpcPatch farWorld)) =
      [UpdateChain 9007199254740992 rpcPatch, ResetSDK newFarChain, WalletClientInit newFarChain]"
    by (simp add: run onChainConfigChanged_Some [OF cur] unsafe log)
  have resolved: "fst (updateChainConfig 9007199254740992 rpcPatch farWorld) = Inr ()"
    by (simp add: run)
  have current: "map_option chain_id (chainService_currentChain ?w1) = Some 9007199254740992"
    by (simp add: cur far)
  have heard: "received ''https://dapp.one''
      (calls (snd (updateChainConfig 9007199254740992 rpcPatch farWorld))) = []"
    by (simp add: after)
  from current resolved after heard show ?thesis
    by blast
qed

text \<open>
  C3, amended. \<open>updateChainConfig(chainId, config)\<close> first has the chain service update the
  chain. If \<open>chainId\<close> is then the id of the chain service's current chain \<open>c\<close> and is a
  safe integer (at most \<open>2^53 - 1\<close>), it resets the SDK to \<open>c\<close>, reinitializes the chain
  client with \<open>c\<close> and broadcasts \<open>chainChanged\<close> with the chain id as a hex string, which
  every session receives; for a larger current id it resets and reinitializes and sends
  nothing. If \<open>chainId\<close> is not the current chain's id, the update of the chain service is
  all that happens. A configuration that does not replace the id leaves the current
  chain's id as it was before the call. The routine itself, \<open>_onChainConfigChanged\<close>,
  throws "Elytro: No current chain config" before any effect when no current chain
  resolves.
\<close>

theorem updateChainConfig_reinit_iff:
  "calls (chainService_updateChain cid config w) = calls w @ [UpdateChain cid config] \<and>
   (chainService_currentChain (chainService_updateChain cid config w) = Some c \<and> chain_id c = cid \<and>
    cid \<le> MAX_SAFE_INTEGER \<longrightarrow>
      updateChainConfig cid config w =
        (Inr (),
         (chainService_updateChain cid config w)
           \<lparr>calls := calls w @ [UpdateChain cid config, ResetSDK c, WalletClientInit c,
                       BroadcastMessage ''chainChanged'' (HexString (hexString cid))]\<rparr>) \<and>
      received org (calls (snd (updateChainConfig cid config w))) =
        received org (calls w) @ [(''chainChanged'', HexString (hexString cid))]) \<and>
   (chainService_currentChain (chainService_updateChain cid config w) = Some c \<and> chain_id c = cid \<and>
    MAX_SAFE_INTEGER < cid \<longrightarrow>
      updateChainConfig cid config w =
        (Inr (),
         (chainService_updateChain cid config w)
           \<lparr>calls := calls w @ [UpdateChain cid config, ResetSDK c, WalletClientInit c]\<rparr>) \<and>
      received org (calls (snd (updateChainConfig cid config w))) = received org (calls w)) \<and>
   (map_option chain_id (chainService_currentChain (chainService_updateChain cid config w)) \<noteq> Some cid \<longrightarrow>
      updateChainConfig cid config w = (Inr (), chainService_updateChain cid config w)) \<and>
   (new_id config = None \<longrightarrow>
      map_option chain_id (chainService_currentChain (chainService_updateChain cid config w)) =
      map_option chain_id (chainService_currentChain w)) \<and>
   (chainService_currentChain w = None \<longrightarrow>
      priv_onChainConfigChanged w =
        (Inl (Thrown (JsError ''Elytro: No current chain config'')), w))"
proof -
  let ?w1 = "chainService_updateChain cid config w"
  have log: "calls ?w1 = calls w @ [UpdateChain cid config]"
    by (simp add: chainService_updateChain_def)
  have run: "updateChainConfig cid config w = (Inr (), snd (priv_onChainConfigChanged ?w1))"
    if "chainService_currentChain ?w1 = Some c" "chain_id c = cid"
    using that by (simp add: updateChainConfig_def Let_def)
  have safe: "updateChainConfig cid config w =
        (Inr (),
         ?w1\<lparr>calls := calls w @ [UpdateChain cid config, ResetSDK c, WalletClientInit c,
                       BroadcastMessage ''chainChanged'' (HexString (hexString cid))]\<rparr>) \<and>
      received org (calls (snd (updateChainConfig cid config w))) =
        received org (calls w) @ [(''chainChanged'', HexString (hexString cid))]"
    if cur: "chainService_currentChain ?w1 = Some c" and same: "chain_id c = cid"
      and small: "cid \<le> MAX_SAFE_INTEGER"
    using same small
    by (simp add: run [OF cur same] onChainConfigChanged_Some [OF cur] log received_append)
  have unsafe: "updateChainConfig cid config w =
        (Inr (),
         ?w1\<lparr>calls := calls w @ [UpdateChain cid config, ResetSDK c, WalletClientInit c]\<rparr>) \<and>
      received org (calls (snd (updateChainConfig cid config w))) = received org (calls w)"
    if cur: "chainService_currentChain ?w1 = Some c" and same: "chain_id c = cid"
      and large: "MAX_SAFE_INTEGER < cid"
    using same large
    by (simp add: run [OF cur same] onChainConfigChanged_Some [OF cur] log received_append)
  have no: "updateChainConfig cid config w = (Inr (), ?w1)"
    if "map_option chain_id (chainService_currentChain ?w1) \<noteq> Some cid"
  proof -
    from that have "Some cid \<noteq> map_option chain_id (chainService_currentChain ?w1)"
      by (simp add: eq_commute)
    then show ?thesis
      by (simp add: updateChainConfig_def Let_def)
  qed
  show ?thesis
    using log safe unsafe no updateChain_keeps_current_id [of config cid w]
      onChainConfigChanged_None [of w]
    by blast
qed

theorem updateChainConfig_reinit_iff_witness:
  "chainService_currentChain (chainService_updateChain 1 rpcPatch demoWorld) = Some newMainnet \<and>
   chain_id newMainnet = 1 \<and> (1::nat) \<le> MAX_SAFE_INTEGER \<and>
   updateChainConfig 1 rpcPatch demoWorld =
     (Inr (),
      (chainService_updateChain 1 rpcPatch demoWorld)
        \<lparr>calls := calls demoWorld @ [UpdateChain 1 rpcPatch, ResetSDK newMainnet,
                    WalletClientInit newMainnet,
                    BroadcastMessage ''chainChanged'' (HexString (hexString 1))]\<rparr>) \<and>
   hexString 1 = ''0x1'' \<and>
   chainService_currentChain (chainService_updateChain 9007199254740992 rpcPatch farWorld) =
     Some newFarChain \<and>
   chain_id newFarChain = 9007199254740992 \<and> MAX_SAFE_INTEGER < 9007199254740992 \<and>
   received ''https://dapp.one'' (calls (snd (updateChainConfig 9007199254740992 rpcPatch farWorld))) =
     received ''https://dapp.one'' (calls farWorld) \<and>
   map_option chain_id (chainService_currentChain (chainService_updateChain 10 rpcPatch demoWorld)) \<noteq> Some 10 \<and>
   updateChainConfig 10 rpcPatch demoWorld = (Inr (), chainService_updateChain 10 rpcPatch demoWorld) \<and>
   calls (chainService_updateChain 10 rpcPatch demoWorld) = calls demoWorld @ [UpdateChain 10 rpcPatch] \<and>
   new_id rpcPatch = None \<and>
   chainService_currentChain noChainWorld = None \<and>
   priv_onChainConfigChanged noChainWorld =
     (Inl (Thrown (JsError ''Elytro: No current chain config'')), noChainWorld)"
proof -
  have cur: "chainService_currentChain (chainService_updateChain 1 rpcPatch demoWorld) = Some newMainnet"
    by (simp add: chainService_currentChain_def chainService_updateChain_def logCall_def
        demoWorld_def mainnet_def optimism_def rpcPatch_def mergeChain_def newMainnet_def)
  have one: "chain_id newMainnet = 1" "(1::nat) \<le> MAX_SAFE_INTEGER"
    by (simp_all add: newMainnet_def MAX_SAFE_INTEGER_def)
  have farcur: "chainService_currentChain (chainService_updateChain 9007199254740992 rpcPatch farWorld) =
      Some newFarChain"
    by (simp add: chainService_currentChain_def chainService_updateChain_def logCall_def
        farWorld_def mainnet_def farChain_def rpcPatch_def mergeChain_def newFarChain_def)
  have far: "chain_id newFarChain = 9007199254740992" "MAX_SAFE_INTEGER < 9007199254740992"
    by (simp_all add: newFarChain_def MAX_SAFE_INTEGER_def)
  have other: "map_option chain_id
      (chainService_currentChain (chainService_updateChain 10 rpcPatch demoWorld)) \<noteq> Some 10"
    by (simp add: chainService_currentChain_def chainService_updateChain_def logCall_def
        demoWorld_def mainnet_def optimism_def rpcPatch_def mergeChain_def)
  have keep: "new_id rpcPatch = None"
    by (simp add: rpcPatch_def)
  have none: "chainService_currentChain noChainWorld = None"
    by (simp add: chainService_currentChain_def noChainWorld_def)
  have hex: "hexString 1 = ''0x1''"
    by (simp add: hexString_def hexDigits.simps hexDigit_def)
  note t = updateChainConfig_reinit_iff [where org = "''https://dapp.one''"]
  have c1: "updateChainConfig 1 rpcPatch demoWorld =
     (Inr (),
      (chainService_updateChain 1 rpcPatch demoWorld)
        \<lparr>calls := calls demoWorld @ [UpdateChain 1 rpcPatch, ResetSDK newMainnet,
                    WalletClientInit newMainnet,
                    BroadcastMessage ''chainChanged'' (HexString (hexString 1))]\<rparr>)"
    using t [of 1 rpcPatch demoWorld newMainnet] cur one by blast
  have c2: "received ''https://dapp.one''
      (calls (snd (updateChainConfig 9007199254740992 rpcPatch farWorld))) =
     received ''https://dapp.one'' (calls farWorld)"
    using t [of 9007199254740992 rpcPatch farWorld newFarChain] farcur far by blast
  have c3: "updateChainConfig 10 rpcPatch demoWorld =
      (Inr (), chainService_updateChain 10 rpcPatch demoWorld)"
    "calls (chainService_updateChain 10 rpcPatch demoWorld) = calls demoWorld @ [UpdateChain 10 rpcPatch]"
    using t [of 10 rpcPatch demoWorld newMainnet] other by blast+
  have c4: "priv_onChainConfigChanged noChainWorld =
     (Inl (Thrown (JsError ''Elytro: No current chain config'')), noChainWorld)"
    using t [of 1 rpcPatch noChainWorld newMainnet] none by blast
  from cur one hex farcur far other keep none c1 c2 c3 c4 show ?thesis
    by blast
qed

section \<open>Creating an account and switching the account by chain\<close>




text \<open>
  C6, on an unconfigured chain. The current chain is 1 and chain 5 is not configured:
  \<open>switchAccountByChain(5)\<close> resolves, but the chain is not switched although the id
  differs from the current chain's; no account is current afterwards, and the event that
  all sessions receive carries \<open>undefined\<close>.
\<close>

theorem switchAccountByChain_unconfigured_counterexample:
  "map_option chain_id (chainService_currentChain demoWorld) = Some 1 \<and>
   fst (switchAccountByChain 5 demoWorld) = Inr () \<and>
   map_option chain_id (chainService_currentChain (snd (switchAccountByChain 5 demoWorld))) = Some 1 \<and>
   currentAccount (snd (switchAccountByChain 5 demoWorld)) = None \<and>
   calls (snd (switchAccountByChain 5 demoWorld)) =
     [SwitchChain 5, SwitchAccountByChainId 5, HistorySwitchAccount None,
      BroadcastMessage ''accountsChanged'' (Addresses [None])]"
proof -
  have cur: "map_option chain_id (chainService_currentChain demoWorld) = Some 1"
    by (simp add: chainService_currentChain_def demoWorld_def mainnet_def optimism_def)
  have differs: "map_option chain_id (chainService_currentChain demoWorld) \<noteq> Some 5"
    by (simp add: cur)
  have missing: "find (\<lambda>c. chain_id c = 5) (chains demoWorld) = None"
    by (simp add: demoWorld_def mainnet_def optimism_def)
  have noacc: "find (\<lambda>a. chainId a = 5) (accounts demoWorld) = None"
    by (simp add: demoWorld_def accountOne_def accountTen_def)
  have empty: "calls demoWorld = []"
    by (simp add: demoWorld_def)
  note sw = switchChain_unconfigured [OF differs missing]
  have world: "snd (switchAccountByChain 5 demoWorld) =
      (logCall (SwitchChain 5) demoWorld)
        \<lparr>currentAccount := None,
         calls := [SwitchChain 5, SwitchAccountByChainId 5, HistorySwitchAccount None,
                   BroadcastMessage ''accountsChanged'' (Addresses [None])]\<rparr>"
    by (simp add: switchAccountByChain_world sw noacc empty)
  have resolved: "fst (switchAccountByChain 5 demoWorld) = Inr ()"
    by (simp add: switchAccountByChain_world)
  have still: "map_option chain_id
      (chainService_currentChain (snd (switchAccountByChain 5 demoWorld))) = Some 1"
    by (simp add: world cur)
  have nobody: "currentAccount (snd (switchAccountByChain 5 demoWorld)) = None"
    by (simp add: world)
  have log: "calls (snd (switchAccountByChain 5 demoWorld)) =
     [SwitchChain 5, SwitchAccountByChainId 5, HistorySwitchAccount None,
      BroadcastMessage ''accountsChanged'' (Addresses [None])]"
    by (simp add: world)
  from cur resolved still nobody log show ?thesis
    by blast
qed

text \<open>
  C6, amended. \<open>switchAccountByChain(chainId)\<close> resolves. When \<open>chainId\<close> is the current
  chain's id, the chain-switch step does nothing. When it differs and is the id of a
  configured chain \<open>c\<close>, the step makes \<open>c\<close> the current chain and runs the
  chain-config-changed routine: the SDK reset, the chain client's reinitialization and,
  for an id that is a safe integer, the \<open>chainChanged\<close> broadcast. When it is not the id of
  a configured chain, the chain service's switch changes nothing. In each case three
  calls follow, in this order: the account manager's switch to the chain, which makes the
  account of that chain current (none, if the chain has no account), the history
  manager's switch to the new current account, and the broadcast of \<open>accountsChanged\<close>
  with the new current account's address, which the session of every origin receives
  last. Nothing else of the state changes.
\<close>

theorem switchAccountByChain_effects:
  "fst (switchAccountByChain cid w) = Inr () \<and>
   currentAccount (snd (switchAccountByChain cid w)) = find (\<lambda>a. chainId a = cid) (accounts w) \<and>
   (map_option chain_id (chainService_currentChain w) = Some cid \<longrightarrow>
      snd (switchAccountByChain cid w) =
        w\<lparr>currentAccount := find (\<lambda>a. chainId a = cid) (accounts w),
           calls := calls w @
             [SwitchAccountByChainId cid,
              HistorySwitchAccount (find (\<lambda>a. chainId a = cid) (accounts w)),
              BroadcastMessage ''accountsChanged''
                (Addresses [map_option address (find (\<lambda>a. chainId a = cid) (accounts w))])]\<rparr>) \<and>
   (map_option chain_id (chainService_currentChain w) \<noteq> Some cid \<and>
    find (\<lambda>c. chain_id c = cid) (chains w) = Some c \<and> cid \<le> MAX_SAFE_INTEGER \<longrightarrow>
      chainService_currentChain (snd (switchAccountByChain cid w)) = Some c \<and> chain_id c = cid \<and>
      snd (switchAccountByChain cid w) =
        w\<lparr>currentChainId := Some cid,
           currentAccount := find (\<lambda>a. chainId a = cid) (accounts w),
           calls := calls w @
             [SwitchChain cid, ResetSDK c, WalletClientInit c,
              BroadcastMessage ''chainChanged'' (HexString (hexString cid)),
              SwitchAccountByChainId cid,
              HistorySwitchAccount (find (\<lambda>a. chainId a = cid) (accounts w)),
              BroadcastMessage ''accountsChanged''
                (Addresses [map_option address (find (\<lambda>a. chainId a = cid) (accounts w))])]\<rparr>) \<and>
   (map_option chain_id (chainService_currentChain w) \<noteq> Some cid \<and>
    find (\<lambda>c. chain_id c = cid) (chains w) = Some c \<and> MAX_SAFE_INTEGER < cid \<longrightarrow>
      chainService_currentChain (snd (switchAccountByChain cid w)) = Some c \<and> chain_id c = cid \<and>
      snd (switchAccountByChain cid w) =
        w\<lparr>currentChainId := Some cid,
           currentAccount := find (\<lambda>a. chainId a = cid) (accounts w),
           calls := calls w @
             [SwitchChain cid, ResetSDK c, WalletClientInit c,
              SwitchAccountByChainId cid,
              HistorySwitchAccount (find (\<lambda>a. chainId a = cid) (accounts w)),
              BroadcastMessage ''accountsChanged''
                (Addresses [map_option address (find (\<lambda>a. chainId a = cid) (accounts w))])]\<rparr>) \<and>
   (map_option chain_id (chainService_currentChain w) \<noteq> Some cid \<and>
    find (\<lambda>c. chain_id c = cid) (chains w) = None \<longrightarrow>
      snd (switchAccountByChain cid w) =
        w\<lparr>currentAccount := find (\<lambda>a. chainId a = cid) (accounts w),
           calls := calls w @
             [SwitchChain cid, SwitchAccountByChainId cid,
              HistorySwitchAccount (find (\<lambda>a. chainId a = cid) (accounts w)),
              BroadcastMessage ''accountsChanged''
                (Addresses [map_option address (find (\<lambda>a. chainId a = cid) (accounts w))])]\<rparr>) \<and>
   received org (calls (snd (switchAccountByChain cid w))) =
     received org (calls (snd (priv_switchChain cid w))) @
       [(''accountsChanged'',
         Addresses [map_option address (currentAccount (snd (switchAccountByChain cid w)))])]"
proof -
  let ?acc = "find (\<lambda>a. chainId a = cid) (accounts w)"
  note world = switchAccountByChain_world [of cid w]
  have res: "fst (switchAccountByChain cid w) = Inr ()"
    by (simp add: world)
  have acc: "currentAccount (snd (switchAccountByChain cid w)) = ?acc"
    by (simp add: world)
  have same: "snd (switchAccountByChain cid w) =
        w\<lparr>currentAccount := ?acc,
           calls := calls w @
             [SwitchAccountByChainId cid, HistorySwitchAccount ?acc,
              BroadcastMessage ''accountsChanged'' (Addresses [map_option address ?acc])]\<rparr>"
    if "map_option chain_id (chainService_currentChain w) = Some cid"
    by (simp add: world switchChain_same [OF that])
  have safe: "chainService_currentChain (snd (switchAccountByChain cid w)) = Some c \<and> chain_id c = cid \<and>
      snd (switchAccountByChain cid w) =
        w\<lparr>currentChainId := Some cid, currentAccount := ?acc,
           calls := calls w @
             [SwitchChain cid, ResetSDK c, WalletClientInit c,
              BroadcastMessage ''chainChanged'' (HexString (hexString cid)),
              SwitchAccountByChainId cid, HistorySwitchAccount ?acc,
              BroadcastMessage ''accountsChanged'' (Addresses [map_option address ?acc])]\<rparr>"
    if differs: "map_option chain_id (chainService_currentChain w) \<noteq> Some cid"
      and found: "find (\<lambda>c. chain_id c = cid) (chains w) = Some c"
      and small: "cid \<le> MAX_SAFE_INTEGER"
  proof -
    have "chain_id c = cid"
      using found by (auto simp: find_Some_iff)
    then show ?thesis
      using found small
      by (simp add: world switchChain_configured [OF differs found] chainService_currentChain_def)
  qed
  have unsafe: "chainService_currentChain (snd (switchAccountByChain cid w)) = Some c \<and> chain_id c = cid \<and>
      snd (switchAccountByChain cid w) =
        w\<lparr>currentChainId := Some cid, currentAccount := ?acc,
           calls := calls w @
             [SwitchChain cid, ResetSDK c, WalletClientInit c,
              SwitchAccountByChainId cid, HistorySwitchAccount ?acc,
              BroadcastMessage ''accountsChanged'' (Addresses [map_option address ?acc])]\<rparr>"
    if differs: "map_option chain_id (chainService_currentChain w) \<noteq> Some cid"
      and found: "find (\<lambda>c. chain_id c = cid) (chains w) = Some c"
      and large: "MAX_SAFE_INTEGER < cid"
  proof -
    have "chain_id c = cid"
      using found by (auto simp: find_Some_iff)
    then show ?thesis
      using found large
      by (simp add: world switchChain_configured [OF differs found] chainService_currentChain_def)
  qed
  have unconfigured: "snd (switchAccountByChain cid w) =
        w\<lparr>currentAccount := ?acc,
           calls := calls w @
             [SwitchChain cid, SwitchAccountByChainId cid, HistorySwitchAccount ?acc,
              BroadcastMessage ''accountsChanged'' (Addresses [map_option address ?acc])]\<rparr>"
    if differs: "map_option chain_id (chainService_currentChain w) \<noteq> Some cid"
      and missing: "find (\<lambda>c. chain_id c = cid) (chains w) = None"
    by (simp add: world switchChain_unconfigured [OF differs missing] logCall_def)
  have heard: "received org (calls (snd (switchAccountByChain cid w))) =
     received org (calls (snd (priv_switchChain cid w))) @
       [(''accountsChanged'',
         Addresses [map_option address (currentAccount (snd (switchAccountByChain cid w)))])]"
    by (simp add: world received_append)
  show ?thesis
    using res acc same safe unsafe unconfigured heard by blast
qed

theorem switchAccountByChain_effects_witness:
  "map_option chain_id (chainService_currentChain demoWorld) = Some 1 \<and>
   snd (switchAccountByChain 1 demoWorld) =
     demoWorld\<lparr>currentAccount := find (\<lambda>a. chainId a = 1) (accounts demoWorld),
        calls := calls demoWorld @
          [SwitchAccountByChainId 1,
           HistorySwitchAccount (find (\<lambda>a. chainId a = 1) (accounts demoWorld)),
           BroadcastMessage ''accountsChanged''
             (Addresses [map_option address (find (\<lambda>a. chainId a = 1) (accounts demoWorld))])]\<rparr> \<and>
   map_option chain_id (chainService_currentChain demoWorld) \<noteq> Some 10 \<and>
   find (\<lambda>c. chain_id c = 10) (chains demoWorld) = Some optimism \<and>
   (10::nat) \<le> MAX_SAFE_INTEGER \<and>
   chainService_currentChain (snd (switchAccountByChain 10 demoWorld)) = Some optimism \<and>
   snd (switchAccountByChain 10 demoWorld) =
     demoWorld\<lparr>currentChainId := Some 10,
        currentAccount := find (\<lambda>a. chainId a = 10) (accounts demoWorld),
        calls := calls demoWorld @
          [SwitchChain 10, ResetSDK optimism, WalletClientInit optimism,
           BroadcastMessage ''chainChanged'' (HexString (hexString 10)),
           SwitchAccountByChainId 10,
           HistorySwitchAccount (find (\<lambda>a. chainId a = 10) (accounts demoWorld)),
           BroadcastMessage ''accountsChanged''
             (Addresses [map_option address (find (\<lambda>a. chainId a = 10) (accounts demoWorld))])]\<rparr> \<and>
   find (\<lambda>a. chainId a = 10) (accounts demoWorld) = Some accountTen \<and>
   map_option chain_id (chainService_currentChain demoWorldFar) \<noteq> Some 9007199254740992 \<and>
   find (\<lambda>c. chain_id c = 9007199254740992) (chains demoWorldFar) = Some farChain \<and>
   MAX_SAFE_INTEGER < 9007199254740992 \<and>
   chainService_currentChain (snd (switchAccountByChain 9007199254740992 demoWorldFar)) = Some farChain \<and>
   map_option chain_id (chainService_currentChain demoWorld) \<noteq> Some 5 \<and>
   find (\<lambda>c. chain_id c = 5) (chains demoWorld) = None \<and>
   snd (switchAccountByChain 5 demoWorld) =
     demoWorld\<lparr>currentAccount := find (\<lambda>a. chainId a = 5) (accounts demoWorld),
        calls := calls demoWorld @
          [SwitchChain 5, SwitchAccountByChainId 5,
           HistorySwitchAccount (find (\<lambda>a. chainId a = 5) (accounts demoWorld)),
           BroadcastMessage ''accountsChanged''
             (Addresses [map_option address (find (\<lambda>a. chainId a = 5) (accounts demoWorld))])]\<rparr>"
proof -
  have same: "map_option chain_id (chainService_currentChain demoWorld) = Some 1"
    by (simp add: chainService_currentChain_def demoWorld_def mainnet_def optimism_def)
  have differs: "map_option chain_id (chainService_currentChain demoWorld) \<noteq> Some 10"
    "map_option chain_id (chainService_currentChain demoWorld) \<noteq> Some 5"
    by (simp_all add: same)
  have fardiffers: "map_option chain_id (chainService_currentChain demoWorldFar) \<noteq> Some 9007199254740992"
    by (simp add: chainService_currentChain_def demoWorldFar_def mainnet_def farChain_def)
  have found: "find (\<lambda>c. chain_id c = 10) (chains demoWorld) = Some optimism"
    "find (\<lambda>c. chain_id c = 9007199254740992) (chains demoWorldFar) = Some farChain"
    "find (\<lambda>c. chain_id c = 5) (chains demoWorld) = None"
    by (simp_all add: demoWorld_def demoWorldFar_def mainnet_def optimism_def farChain_def)
  have range: "(10::nat) \<le> MAX_SAFE_INTEGER" "MAX_SAFE_INTEGER < 9007199254740992"
    by (simp_all add: MAX_SAFE_INTEGER_def)
  have acc: "find (\<lambda>a. chainId a = 10) (accounts demoWorld) = Some accountTen"
    by (simp add: demoWorld_def accountOne_def accountTen_def)
  note t = switchAccountByChain_effects [where org = "''https://dapp.one''"]
  have c1: "snd (switchAccountByChain 1 demoWorld) =
     demoWorld\<lparr>currentAccount := find (\<lambda>a. chainId a = 1) (accounts demoWorld),
        calls := calls demoWorld @
          [SwitchAccountByChainId 1,
           HistorySwitchAccount (find (\<lambda>a. chainId a = 1) (accounts demoWorld)),
           BroadcastMessage ''accountsChanged''
             (Addresses [map_option address (find (\<lambda>a. chainId a = 1) (accounts demoWorld))])]\<rparr>"
    using t [of 1 demoWorld optimism] same by blast
  have c2: "chainService_currentChain (snd (switchAccountByChain 10 demoWorld)) = Some optimism"
   "snd (switchAccountByChain 10 demoWorld) =
     demoWorld\<lparr>currentChainId := Some 10,
        currentAccount := find (\<lambda>a. chainId a = 10) (accounts demoWorld),
        calls := calls demoWorld @
          [SwitchChain 10, ResetSDK optimism, WalletClientInit optimism,
           BroadcastMessage ''chainChanged'' (HexString (hexString 10)),
           SwitchAccountByChainId 10,
           HistorySwitchAccount (find (\<lambda>a. chainId a = 10) (accounts demoWorld)),
           BroadcastMessage ''accountsChanged''
             (Addresses [map_option address (find (\<lambda>a. chainId a = 10) (accounts demoWorld))])]\<rparr>"
    using t [of 10 demoWorld optimism] differs(1) found(1) range(1) by blast+
  have c3: "chainService_currentChain (snd (switchAccountByChain 9007199254740992 demoWorldFar)) =
      Some farChain"
    using t [of 9007199254740992 demoWorldFar farChain] fardiffers found(2) range(2) by blast
  have c4: "snd (switchAccountByChain 5 demoWorld) =
     demoWorld\<lparr>currentAccount := find (\<lambda>a. chainId a = 5) (accounts demoWorld),
        calls := calls demoWorld @
          [SwitchChain 5, SwitchAccountByChainId 5,
           HistorySwitchAccount (find (\<lambda>a. chainId a = 5) (accounts demoWorld)),
           BroadcastMessage ''accountsChanged''
             (Addresses [map_option address (find (\<lambda>a. chainId a = 5) (accounts demoWorld))])]\<rparr>"
    using t [of 5 demoWorld optimism] differs(2) found(3) by blast
  from same differs fardiffers found range acc c1 c2 c3 c4 show ?thesis
    by blast
qed

section \<open>Signing typed data\<close>

lemma signTypedData_failure:
  "signTypedData ext w typedData = Inl x \<Longrightarrow> \<exists>e. x = RpcInternal (Some (message e))"
  by (auto simp: signTypedData_def Let_def split: sum.splits option.splits if_splits)

text \<open>
  C4. \<open>signTypedData\<close> hashes a string argument with \<open>hashSignTypedData(JSON.parse(...))\<close>
  and a list argument with \<open>hashEarlyTypedData\<close>; with a hash that is present it is
  \<open>signMessage(hash)\<close>. Whatever fails (\<open>JSON.parse\<close>, either hashing, an absent or
  empty hash, \<open>signMessage\<close>), the result is the one error
  \<open>ethErrors.rpc.internal(error.message)\<close>, made from the message of what was thrown, and
  a non-empty message is the message of that error. No other error leaves the method.
\<close>

theorem signTypedData_outcomes:
  "hashed ext (TypedString s) =
     (case JSON_parse ext s of Inl e \<Rightarrow> Inl e | Inr j \<Rightarrow> hashSignTypedData ext j) \<and>
   hashed ext (TypedList items) = hashEarlyTypedData ext items \<and>
   (hashed ext typedData = Inr (Some h) \<and> h \<noteq> [] \<and> signMessage ext w (JString h) = Inr sig \<longrightarrow>
      signTypedData ext w typedData = Inr sig) \<and>
   (JSON_parse ext s = Inl e \<longrightarrow>
      signTypedData ext w (TypedString s) = Inl (RpcInternal (Some (message e)))) \<and>
   (hashed ext typedData = Inl e \<longrightarrow>
      signTypedData ext w typedData = Inl (RpcInternal (Some (message e)))) \<and>
   (hashed ext typedData = Inr None \<or> hashed ext typedData = Inr (Some []) \<longrightarrow>
      signTypedData ext w typedData =
        Inl (RpcInternal (Some ''Elytro: Cannot generate hash for typed data''))) \<and>
   (hashed ext typedData = Inr (Some h) \<and> h \<noteq> [] \<and> signMessage ext w (JString h) = Inl e \<longrightarrow>
      signTypedData ext w typedData = Inl (RpcInternal (Some (message e)))) \<and>
   (signTypedData ext w typedData = Inl x \<longrightarrow>
      isInternal x \<and> (\<exists>e'. x = RpcInternal (Some (message e')))) \<and>
   (message e \<noteq> [] \<longrightarrow> message (RpcInternal (Some (message e))) = message e)"
proof -
  have parse: "signTypedData ext w (TypedString s) = Inl (RpcInternal (Some (message e)))"
    if "JSON_parse ext s = Inl e"
    using that by (simp add: signTypedData_def hashed_def)
  have hash: "signTypedData ext w typedData = Inl (RpcInternal (Some (message e)))"
    if "hashed ext typedData = Inl e"
    using that by (simp add: signTypedData_def)
  have absent: "signTypedData ext w typedData =
      Inl (RpcInternal (Some ''Elytro: Cannot generate hash for typed data''))"
    if "hashed ext typedData = Inr None \<or> hashed ext typedData = Inr (Some [])"
    using that by (auto simp: signTypedData_def noHashError_def)
  have sign: "signTypedData ext w typedData = Inl (RpcInternal (Some (message e)))"
    if "hashed ext typedData = Inr (Some h)" "h \<noteq> []" "signMessage ext w (JString h) = Inl e"
    using that by (simp add: signTypedData_def)
  have ok: "signTypedData ext w typedData = Inr sig"
    if "hashed ext typedData = Inr (Some h)" "h \<noteq> []" "signMessage ext w (JString h) = Inr sig"
    using that by (simp add: signTypedData_def)
  have any: "isInternal x \<and> (\<exists>e'. x = RpcInternal (Some (message e')))"
    if "signTypedData ext w typedData = Inl x"
    using signTypedData_failure [OF that] by auto
  have strategies: "hashed ext (TypedString s) =
     (case JSON_parse ext s of Inl e \<Rightarrow> Inl e | Inr j \<Rightarrow> hashSignTypedData ext j)"
    "hashed ext (TypedList items) = hashEarlyTypedData ext items"
    by (simp_all add: hashed_def)
  have carried: "message (RpcInternal (Some (message e))) = message e" if "message e \<noteq> []"
    using that by (simp add: rpcMessage_def)
  show ?thesis
    using parse hash absent sign ok any strategies carried by blast
qed

theorem signTypedData_outcomes_witness:
  "JSON_parse demoExternals [] = Inl (JsError ''Unexpected end of JSON input'') \<and>
   signTypedData demoExternals demoWorld (TypedString []) =
     Inl (RpcInternal (Some (message (JsError ''Unexpected end of JSON input'')))) \<and>
   hashed demoExternals (TypedString ''{}'') = Inl (JsError ''Invalid typed data'') \<and>
   signTypedData demoExternals demoWorld (TypedString ''{}'') =
     Inl (RpcInternal (Some (message (JsError ''Invalid typed data'')))) \<and>
   hashed demoExternals (TypedList []) = Inr None \<and>
   signTypedData demoExternals demoWorld (TypedList []) =
     Inl (RpcInternal (Some ''Elytro: Cannot generate hash for typed data'')) \<and>
   hashed demoExternals (TypedList [''a'']) = Inr (Some ''0x2a'') \<and> ''0x2a'' \<noteq> [] \<and>
   signMessage demoExternals demoWorld (JString ''0x2a'') = Inr ''sig:0x2a:0xa1'' \<and>
   signTypedData demoExternals demoWorld (TypedList [''a'']) = Inr ''sig:0x2a:0xa1'' \<and>
   signMessage demoExternals freshWorld (JString ''0x2a'') = Inl (RpcInternal None) \<and>
   signTypedData demoExternals freshWorld (TypedList [''a'']) =
     Inl (RpcInternal (Some (message (RpcInternal None)))) \<and>
   message (RpcInternal None) = ''Internal JSON-RPC error.''"
proof -
  have parse: "JSON_parse demoExternals [] = Inl (JsError ''Unexpected end of JSON input'')"
    by (simp add: demoExternals_def)
  have hash: "hashed demoExternals (TypedString ''{}'') = Inl (JsError ''Invalid typed data'')"
    by (simp add: hashed_def demoExternals_def)
  have absent: "hashed demoExternals (TypedList []) = Inr None"
    by (simp add: hashed_def demoExternals_def)
  have present: "hashed demoExternals (TypedList [''a'']) = Inr (Some ''0x2a'')" "''0x2a'' \<noteq> []"
    by (simp_all add: hashed_def demoExternals_def)
  have signed: "signMessage demoExternals demoWorld (JString ''0x2a'') = Inr ''sig:0x2a:0xa1''"
    by (simp add: signMessage_def demoWorld_def accountOne_def demoExternals_def)
  have refused: "signMessage demoExternals freshWorld (JString ''0x2a'') = Inl (RpcInternal None)"
    by (simp add: signMessage_def freshWorld_def)
  have msg: "message (RpcInternal None) = ''Internal JSON-RPC error.''"
    by (simp add: rpcMessage_def)
  note t = signTypedData_outcomes [of demoExternals "[]" "[]" _ "''0x2a''" _ "''sig:0x2a:0xa1''"]
  have c1: "signTypedData demoExternals demoWorld (TypedString []) =
     Inl (RpcInternal (Some (message (JsError ''Unexpected end of JSON input''))))"
    using t [of "TypedString []" demoWorld "JsError ''Unexpected end of JSON input''"] parse
    by blast
  have c2: "signTypedData demoExternals demoWorld (TypedString ''{}'') =
     Inl (RpcInternal (Some (message (JsError ''Invalid typed data''))))"
    using t [of "TypedString ''{}''" demoWorld "JsError ''Invalid typed data''"] hash
    by blast
  have c3: "signTypedData demoExternals demoWorld (TypedList []) =
     Inl (RpcInternal (Some ''Elytro: Cannot generate hash for typed data''))"
    using t [of "TypedList []" demoWorld "JsError ''Invalid typed data''"] absent
    by blast
  have c4: "signTypedData demoExternals demoWorld (TypedList [''a'']) = Inr ''sig:0x2a:0xa1''"
    using t [of "TypedList [''a'']" demoWorld "JsError ''Invalid typed data''"] present signed
    by blast
  have c5: "signTypedData demoExternals freshWorld (TypedList [''a'']) =
     Inl (RpcInternal (Some (message (RpcInternal None))))"
    using t [of "TypedList [''a'']" freshWorld "RpcInternal None"] present refused
    by blast
  from parse hash absent present signed refused msg c1 c2 c3 c4 c5 show ?thesis
    by simp
qed

section \<open>The round trip of numeric fields\<close>











section \<open>Asynchronous declarations\<close>

text \<open>
  C9. One public method of the controller is declared without \<open>async\<close> and returns its
  result directly: \<open>getLatestHistories\<close>. Every other public method is declared \<open>async\<close>.
\<close>

theorem getLatestHistories_is_synchronous:
  "synchronousPublicMethods WalletController_methods = [''getLatestHistories'']"
  by (simp add: synchronousPublicMethods_def WalletController_methods_def declared_def)

end
